theory Spec2Isabelle
  imports Complex_Main "HOL-Library.Multiset" "HOL-Library.Sublist"
begin

section \<open>The bid monitoring platform: data model\<close>

text \<open>
  The program keeps its state in an SQLite database. The three tables the lifecycle code
  reads and writes are modelled as lists of rows in insertion (rowid) order. Timestamps
  (\<^verbatim>\<open>datetime.now()\<close>) are natural numbers, calendar dates are day numbers, and every
  text column is a \<open>string\<close>. A column that an \<^verbatim>\<open>INSERT\<close> leaves out is \<^verbatim>\<open>NULL\<close>, so
  \<^verbatim>\<open>bids.reason\<close> and \<^verbatim>\<open>bid_stages.completed_at\<close> are options.
\<close>

type_synonym timestamp = nat
type_synonym date = int

text \<open>Table \<^verbatim>\<open>bids\<close>, source lines 41 to 53.\<close>

record bid =
  b_id :: nat
  b_title :: string
  b_description :: string
  b_status :: string
  b_stage :: string
  b_due_date :: date
  b_assigned_to :: string
  b_created_by :: string
  b_created_at :: timestamp
  b_client_name :: string
  b_bid_value :: rat
  b_reason :: "string option"

text \<open>Table \<^verbatim>\<open>bid_history\<close>, source lines 68 to 75.\<close>

record history_row =
  h_id :: nat
  h_bid_id :: nat
  h_changed_at :: timestamp
  h_changed_by :: string
  h_field_changed :: string
  h_old_value :: string
  h_new_value :: string

text \<open>Table \<^verbatim>\<open>bid_stages\<close>, source lines 77 to 84.\<close>

record stage_row =
  bs_id :: nat
  bs_bid_id :: nat
  bs_stage :: string
  bs_stage_owner :: string
  bs_started_at :: timestamp
  bs_completed_at :: "timestamp option"
  bs_notes :: string

text \<open>
  Every table has an \<^verbatim>\<open>INTEGER PRIMARY KEY AUTOINCREMENT\<close>; the \<open>_seq\<close> fields are the
  largest key SQLite has handed out for the table so far.
\<close>

record database =
  bids :: "bid list"
  bids_seq :: nat
  bid_history :: "history_row list"
  bid_history_seq :: nat
  bid_stages :: "stage_row list"
  bid_stages_seq :: nat

definition empty_db :: database where
  "empty_db = \<lparr>bids = [], bids_seq = 0, bid_history = [], bid_history_seq = 0,
               bid_stages = [], bid_stages_seq = 0\<rparr>"

text \<open>The key of a new row: one more than every key in the table and every key ever used.\<close>

definition autoincrement :: "nat \<Rightarrow> nat list \<Rightarrow> nat" where
  "autoincrement seq keys = Suc (fold max keys seq)"

section \<open>Stage registry\<close>

text \<open>The dictionary \<^verbatim>\<open>BID_STAGES\<close>, source lines 93 to 101, in its written order.\<close>

definition BID_STAGES :: "(string \<times> string) list" where
  "BID_STAGES =
    [(''Proposal Drafting'', ''Proposal Manager''),
     (''Legal Review'', ''Legal Team''),
     (''Pricing Review'', ''Finance Team''),
     (''Submission'', ''Sales Lead''),
     (''Evaluation'', ''Client''),
     (''Awarded'', ''Account Manager''),
     (''Lost'', ''Sales Lead'')]"

text \<open>Python's \<^verbatim>\<open>d.get(k, default)\<close> and \<^verbatim>\<open>d.keys()\<close>.\<close>

definition dict_get :: "('k \<times> 'v) list \<Rightarrow> 'k \<Rightarrow> 'v \<Rightarrow> 'v" where
  "dict_get d k dflt = (case map_of d k of None \<Rightarrow> dflt | Some v \<Rightarrow> v)"

definition dict_keys :: "('k \<times> 'v) list \<Rightarrow> 'k list" where
  "dict_keys d = map fst d"

text \<open>
  The owner lookup of source lines 124 and 129,
  \<^verbatim>\<open>BID_STAGES.get(new_stage, "Unassigned")\<close>.
\<close>

definition ownerFor :: "string \<Rightarrow> string" where
  "ownerFor new_stage = dict_get BID_STAGES new_stage ''Unassigned''"

section \<open>History logger and stage tracker\<close>

text \<open>
  \<^verbatim>\<open>log_bid_history\<close>, source lines 103 to 110. \<open>now\<close> is the clock value read by the
  call and \<open>user\<close> is \<^verbatim>\<open>st.session_state.user[1]\<close>. The values logged are strings
  already, so \<^verbatim>\<open>str\<close> leaves them as they are.
\<close>

definition log_bid_history ::
  "timestamp \<Rightarrow> string \<Rightarrow> nat \<Rightarrow> string \<Rightarrow> string \<Rightarrow> string \<Rightarrow> database \<Rightarrow> database" where
  "log_bid_history now user bid_id field_changed old_value new_value db =
    (let k = autoincrement (bid_history_seq db) (map h_id (bid_history db)) in
     db\<lparr>bid_history := bid_history db @
            [\<lparr>h_id = k, h_bid_id = bid_id, h_changed_at = now, h_changed_by = user,
              h_field_changed = field_changed, h_old_value = old_value,
              h_new_value = new_value\<rparr>],
        bid_history_seq := k\<rparr>)"

text \<open>
  \<^verbatim>\<open>update_bid_stage\<close>, source lines 112 to 126. The function reads the clock twice:
  \<open>now_close\<close> for the \<^verbatim>\<open>UPDATE\<close> and \<open>now_start\<close> for the \<^verbatim>\<open>INSERT\<close>. The sidebar
  notification of line 129 writes nothing to the store and is left out.
\<close>

definition complete_current :: "timestamp \<Rightarrow> nat \<Rightarrow> stage_row \<Rightarrow> stage_row" where
  "complete_current now_close bid_id r =
    (if bs_bid_id r = bid_id \<and> bs_completed_at r = None
     then r\<lparr>bs_completed_at := Some now_close\<rparr> else r)"

definition update_bid_stage ::
  "timestamp \<Rightarrow> timestamp \<Rightarrow> nat \<Rightarrow> string \<Rightarrow> string \<Rightarrow> database \<Rightarrow> database" where
  "update_bid_stage now_close now_start bid_id new_stage notes db =
    (let k = autoincrement (bid_stages_seq db) (map bs_id (bid_stages db)) in
     db\<lparr>bid_stages := map (complete_current now_close bid_id) (bid_stages db) @
            [\<lparr>bs_id = k, bs_bid_id = bid_id, bs_stage = new_stage,
              bs_stage_owner = ownerFor new_stage, bs_started_at = now_start,
              bs_completed_at = None, bs_notes = notes\<rparr>],
        bid_stages_seq := k\<rparr>)"

text \<open>The open intervals of a bid: its rows with \<^verbatim>\<open>completed_at IS NULL\<close>.\<close>

definition open_intervals :: "nat \<Rightarrow> database \<Rightarrow> stage_row list" where
  "open_intervals bid_id db =
    filter (\<lambda>r. bs_bid_id r = bid_id \<and> bs_completed_at r = None) (bid_stages db)"

section \<open>Lifecycle engine\<close>

text \<open>
  What a handler reports when it does not carry a request out. \<open>ValidationError\<close> is the
  \<^verbatim>\<open>st.error\<close> of line 306, \<open>NotFoundError\<close> the one of line 370. \<open>NoBidSelected\<close> is
  the falsy branch of \<^verbatim>\<open>if bid_id:\<close> (line 365), where the page shows nothing.
  \<open>AllStagesCompleted\<close> is the \<^verbatim>\<open>st.info\<close> of line 434, shown in place of the select box
  when \<^verbatim>\<open>available_stages\<close> is empty. The code raises no error for a stage transition:
  the select box of line 424 can only return one of its options, so for a stage that is
  not among them the button of line 427 cannot be pressed at all. The model takes the
  requested stage as a string and marks such a request \<open>NotOffered\<close>: none of the
  handler's code runs for it.
\<close>

datatype error =
  ValidationError | NotFoundError | NoBidSelected | AllStagesCompleted | NotOffered

text \<open>The fields of the form of \<^verbatim>\<open>create_bid\<close>, source lines 297 to 302.\<close>

record bid_form =
  f_title :: string
  f_description :: string
  f_client_name :: string
  f_bid_value :: rat
  f_due_date :: date
  f_assigned_to :: string

text \<open>
  \<^verbatim>\<open>create_bid\<close> once the form is submitted, source lines 304 to 321. Python's
  \<^verbatim>\<open>not title\<close> on a string is true exactly for the empty string. The \<^verbatim>\<open>INSERT\<close> names
  no \<^verbatim>\<open>reason\<close> column, so the new row has \<^verbatim>\<open>reason = NULL\<close>. The clock is read for
  \<^verbatim>\<open>created_at\<close> first and then twice inside \<^verbatim>\<open>update_bid_stage\<close>. The result carries
  \<^verbatim>\<open>c.lastrowid\<close>.
\<close>

definition create_bid ::
  "string \<Rightarrow> timestamp \<Rightarrow> timestamp \<Rightarrow> timestamp \<Rightarrow> bid_form \<Rightarrow> database
     \<Rightarrow> (error + nat) \<times> database" where
  "create_bid user now_created now_close now_start f db =
    (if f_title f = [] \<or> f_client_name f = [] \<or> f_assigned_to f = []
     then (Inl ValidationError, db)
     else
       let bid_id = autoincrement (bids_seq db) (map b_id (bids db));
           db1 = db\<lparr>bids := bids db @
                   [\<lparr>b_id = bid_id, b_title = f_title f, b_description = f_description f,
                     b_status = ''Open'', b_stage = ''Proposal Drafting'',
                     b_due_date = f_due_date f, b_assigned_to = f_assigned_to f,
                     b_created_by = user, b_created_at = now_created,
                     b_client_name = f_client_name f, b_bid_value = f_bid_value f,
                     b_reason = None\<rparr>],
                   bids_seq := bid_id\<rparr>
       in (Inr bid_id,
           update_bid_stage now_close now_start bid_id ''Proposal Drafting'' ''Bid created'' db1))"

text \<open>
  The query of lines 413 to 415,
  \<^verbatim>\<open>SELECT * FROM bid_stages WHERE bid_id=? ORDER BY started_at\<close>, and the stages still
  on offer, lines 420 and 421.
\<close>

definition stages_of_bid :: "nat \<Rightarrow> database \<Rightarrow> stage_row list" where
  "stages_of_bid bid_id db =
    sort_key bs_started_at (filter (\<lambda>r. bs_bid_id r = bid_id) (bid_stages db))"

definition available_stages :: "nat \<Rightarrow> database \<Rightarrow> string list" where
  "available_stages bid_id db =
    (let completed_stages = map bs_stage (stages_of_bid bid_id db)
     in filter (\<lambda>s. s \<notin> set completed_stages) (dict_keys BID_STAGES))"

text \<open>
  The two buttons of \<^verbatim>\<open>manage_bid_process\<close>. \<open>UpdateStatus new_status loss_reason\<close> is
  the button of line 396 with the values of the two select boxes; \<open>TransitionStage
  new_stage notes\<close> is the button of line 427.
\<close>

datatype action = UpdateStatus string string | TransitionStage string string

definition set_status_reason :: "nat \<Rightarrow> string \<Rightarrow> string \<Rightarrow> bid \<Rightarrow> bid" where
  "set_status_reason bid_id new_status reason b =
    (if b_id b = bid_id then b\<lparr>b_status := new_status, b_reason := Some reason\<rparr> else b)"

definition set_stage :: "nat \<Rightarrow> string \<Rightarrow> bid \<Rightarrow> bid" where
  "set_stage bid_id new_stage b = (if b_id b = bid_id then b\<lparr>b_stage := new_stage\<rparr> else b)"

text \<open>
  \<^verbatim>\<open>manage_bid_process\<close>, source lines 360 to 434. The bid is looked up first
  (\<^verbatim>\<open>SELECT * FROM bids WHERE id=?\<close>, with \<^verbatim>\<open>bid.iloc[0]\<close> its first row). The reason
  select box exists only for the status \<open>Lost\<close>; for every other status line 394 sets
  the reason to the empty string. \<open>now_log\<close> is the clock read by \<^verbatim>\<open>log_bid_history\<close>;
  \<open>now_close\<close> and \<open>now_start\<close> are the two reads of \<^verbatim>\<open>update_bid_stage\<close>.
\<close>

definition manage_bid_process ::
  "string \<Rightarrow> timestamp \<Rightarrow> timestamp \<Rightarrow> timestamp \<Rightarrow> nat \<Rightarrow> action \<Rightarrow> database
     \<Rightarrow> (error + unit) \<times> database" where
  "manage_bid_process user now_log now_close now_start bid_id act db =
    (if bid_id = 0 then (Inl NoBidSelected, db)
     else case filter (\<lambda>b. b_id b = bid_id) (bids db) of
       [] \<Rightarrow> (Inl NotFoundError, db)
     | bid0 # _ \<Rightarrow>
        (case act of
           UpdateStatus new_status loss_reason \<Rightarrow>
             let reason = (if new_status = ''Lost'' then loss_reason else []);
                 old_status = b_status bid0;
                 db1 = db\<lparr>bids := map (set_status_reason bid_id new_status reason) (bids db)\<rparr>;
                 db2 = log_bid_history now_log user bid_id ''status'' old_status new_status db1
             in (Inr (),
                 if new_status = ''Won''
                 then update_bid_stage now_close now_start bid_id ''Awarded'' ''Bid won!'' db2
                 else if new_status = ''Lost''
                 then update_bid_stage now_close now_start bid_id ''Lost''
                        (''Bid lost: '' @ reason) db2
                 else db2)
         | TransitionStage new_stage notes \<Rightarrow>
             if available_stages bid_id db = [] then (Inl AllStagesCompleted, db)
             else if new_stage \<in> set (available_stages bid_id db)
             then
               let db1 = update_bid_stage now_close now_start bid_id new_stage notes db
               in (Inr (), db1\<lparr>bids := map (set_stage bid_id new_stage) (bids db1)\<rparr>)
             else (Inl NotOffered, db)))"

text \<open>The operations under the names the specification gives them.\<close>

definition setStatus ::
  "string \<Rightarrow> timestamp \<Rightarrow> timestamp \<Rightarrow> timestamp \<Rightarrow> nat \<Rightarrow> string \<Rightarrow> string \<Rightarrow> database
     \<Rightarrow> (error + unit) \<times> database" where
  "setStatus user now_log now_close now_start bid_id new_status loss_reason db =
    manage_bid_process user now_log now_close now_start bid_id
      (UpdateStatus new_status loss_reason) db"


section \<open>Read-side queries\<close>

text \<open>
  \<^verbatim>\<open>show_deadline_reminders\<close>, source lines 131 to 137:
  \<^verbatim>\<open>SELECT id, title, due_date FROM bids WHERE due_date <= ? AND status = 'Open'\<close> with
  the parameter \<^verbatim>\<open>today + timedelta(days=3)\<close>. The query has no \<^verbatim>\<open>ORDER BY\<close>; rows
  come back in table order.
\<close>

definition show_deadline_reminders :: "date \<Rightarrow> database \<Rightarrow> (nat \<times> string \<times> date) list" where
  "show_deadline_reminders today db =
    map (\<lambda>b. (b_id b, b_title b, b_due_date b))
      (filter (\<lambda>b. b_due_date b \<le> today + 3 \<and> b_status b = ''Open'') (bids db))"

text \<open>
  \<^verbatim>\<open>ORDER BY changed_at DESC\<close>: a sort on the negated timestamp.
\<close>

definition order_by_changed_at_desc :: "('a \<Rightarrow> history_row) \<Rightarrow> 'a list \<Rightarrow> 'a list" where
  "order_by_changed_at_desc row xs = sort_key (\<lambda>x. - int (h_changed_at (row x))) xs"

text \<open>
  \<^verbatim>\<open>show_audit_trail\<close>, source lines 436 to 459. The first query is
  \<^verbatim>\<open>SELECT * FROM bid_history WHERE bid_id=? ORDER BY changed_at DESC\<close>; the second joins
  each history row with the bids carrying its \<^verbatim>\<open>bid_id\<close>, orders by \<^verbatim>\<open>changed_at DESC\<close>
  and keeps the first 50 rows.
\<close>

definition bid_history_query :: "nat \<Rightarrow> database \<Rightarrow> history_row list" where
  "bid_history_query bid_id db =
    order_by_changed_at_desc (\<lambda>h. h) (filter (\<lambda>h. h_bid_id h = bid_id) (bid_history db))"

definition history_join_bids :: "database \<Rightarrow> (history_row \<times> string) list" where
  "history_join_bids db =
    concat (map (\<lambda>h. map (\<lambda>b. (h, b_title b)) (filter (\<lambda>b. h_bid_id h = b_id b) (bids db)))
              (bid_history db))"

definition recent_activity_query :: "database \<Rightarrow> (history_row \<times> string) list" where
  "recent_activity_query db = take 50 (order_by_changed_at_desc fst (history_join_bids db))"

definition show_audit_trail ::
  "nat \<Rightarrow> database \<Rightarrow> history_row list option \<times> (history_row \<times> string) list" where
  "show_audit_trail bid_id db =
    (if bid_id \<noteq> 0 then Some (bid_history_query bid_id db) else None,
     recent_activity_query db)"

section \<open>Sequences of requests\<close>

text \<open>
  One request to the application: the session user, the clock values the handler reads,
  and the handler with its inputs. \<open>run\<close> serves a list of requests in order; a request
  that ends in an error leaves the store as it was.
\<close>

record env =
  e_user :: string
  e_now1 :: timestamp
  e_now2 :: timestamp
  e_now3 :: timestamp

datatype request = CreateBid bid_form | ManageBid nat action

fun step :: "env \<Rightarrow> request \<Rightarrow> database \<Rightarrow> database" where
  "step e (CreateBid f) db = snd (create_bid (e_user e) (e_now1 e) (e_now2 e) (e_now3 e) f db)"
| "step e (ManageBid bid_id act) db =
     snd (manage_bid_process (e_user e) (e_now1 e) (e_now2 e) (e_now3 e) bid_id act db)"

fun run :: "(env \<times> request) list \<Rightarrow> database \<Rightarrow> database" where
  "run [] db = db"
| "run ((e, r) # rs) db = run rs (step e r db)"

text \<open>No bid has two open intervals.\<close>

definition single_open :: "database \<Rightarrow> bool" where
  "single_open db =
    list_all (\<lambda>r. length (open_intervals (bs_bid_id r) db) \<le> 1) (bid_stages db)"

text \<open>
  Two rows of \<^verbatim>\<open>bids\<close> that agree on every column except \<^verbatim>\<open>status\<close> and
  \<^verbatim>\<open>reason\<close>, and are the same row when it is not the row of \<open>bid_id\<close>.
\<close>

definition same_but_status_reason :: "nat \<Rightarrow> bid \<Rightarrow> bid \<Rightarrow> bool" where
  "same_but_status_reason bid_id b b' \<longleftrightarrow>
     b_id b' = b_id b \<and> b_title b' = b_title b \<and> b_description b' = b_description b \<and>
     b_due_date b' = b_due_date b \<and> b_assigned_to b' = b_assigned_to b \<and>
     b_client_name b' = b_client_name b \<and> b_bid_value b' = b_bid_value b \<and>
     b_created_by b' = b_created_by b \<and> b_created_at b' = b_created_at b \<and>
     b_stage b' = b_stage b \<and> (b_id b \<noteq> bid_id \<longrightarrow> b' = b)"

text \<open>The three columns the deadline query selects.\<close>

definition reminder_row :: "bid \<Rightarrow> nat \<times> string \<times> date" where
  "reminder_row b = (b_id b, b_title b, b_due_date b)"


text \<open>The order \<^verbatim>\<open>changed_at DESC\<close> asks for: the later change comes first.\<close>

definition newest_first :: "history_row \<Rightarrow> history_row \<Rightarrow> bool" where
  "newest_first x y \<longleftrightarrow> h_changed_at y \<le> h_changed_at x"

section \<open>Example stores\<close>

text \<open>Concrete requests and stores on which the theorems below are exercised.\<close>

definition form_acme :: bid_form where
  "form_acme = \<lparr>f_title = ''Acme Deal'', f_description = [], f_client_name = ''Acme Corp'',
            f_bid_value = 1000, f_due_date = 10, f_assigned_to = ''Jane''\<rparr>"

definition env_at :: "timestamp \<Rightarrow> env" where
  "env_at t = \<lparr>e_user = ''admin'', e_now1 = t, e_now2 = t + 1, e_now3 = t + 2\<rparr>"

definition one_bid_db :: database where
  "one_bid_db = run [(env_at 1, CreateBid form_acme)] empty_db"

definition two_open_db :: database where
  "two_open_db = empty_db\<lparr>bid_stages :=
     [\<lparr>bs_id = 1, bs_bid_id = 1, bs_stage = ''Proposal Drafting'',
       bs_stage_owner = ''Proposal Manager'', bs_started_at = 1, bs_completed_at = None,
       bs_notes = []\<rparr>,
      \<lparr>bs_id = 2, bs_bid_id = 1, bs_stage = ''Legal Review'',
       bs_stage_owner = ''Legal Team'', bs_started_at = 2, bs_completed_at = None,
       bs_notes = []\<rparr>], bid_stages_seq := 2\<rparr>"

definition lost_bid_db :: database where
  "lost_bid_db = run [(env_at 1, CreateBid form_acme),
                      (env_at 5, ManageBid 1 (UpdateStatus ''Lost'' ''Pricing too high''))] empty_db"


definition form_untitled :: bid_form where
  "form_untitled = form_acme\<lparr>f_title := []\<rparr>"

definition form_beta :: bid_form where
  "form_beta = \<lparr>f_title = ''Beta Deal'', f_description = [], f_client_name = ''Beta Ltd'',
            f_bid_value = 500, f_due_date = 8, f_assigned_to = ''Omar''\<rparr>"

definition two_bids_db :: database where
  "two_bids_db = run [(env_at 1, CreateBid form_acme), (env_at 5, CreateBid form_beta)] empty_db"

definition won_and_open_db :: database where
  "won_and_open_db =
     run [(env_at 1, CreateBid form_acme), (env_at 5, CreateBid form_beta),
          (env_at 9, ManageBid 1 (UpdateStatus ''Won'' []))] empty_db"

definition history_at :: "nat \<Rightarrow> history_row" where
  "history_at i = \<lparr>h_id = i, h_bid_id = 1, h_changed_at = 10 * i, h_changed_by = ''admin'',
     h_field_changed = ''status'', h_old_value = ''Open'', h_new_value = ''Submitted''\<rparr>"

definition busy_db :: database where
  "busy_db = one_bid_db\<lparr>bid_history := map history_at [1..<53], bid_history_seq := 52\<rparr>"

section \<open>Properties of the stage registry\<close>

lemma ownerFor_outside:
  "s \<notin> set (dict_keys BID_STAGES) \<Longrightarrow> ownerFor s = ''Unassigned''"
proof -
  assume "s \<notin> set (dict_keys BID_STAGES)"
  then have "map_of BID_STAGES s = None"
    by (simp add: dict_keys_def map_of_eq_None_iff)
  then show ?thesis
    by (simp add: ownerFor_def dict_get_def)
qed

text \<open>
  Claim C6. \<open>ownerFor\<close> maps each of the seven registry keys to its registered owner and
  every other stage name to the sentinel \<open>Unassigned\<close>; it is a total function into
  strings, so no name is rejected.
\<close>

theorem C6_ownerFor_registry:
  "ownerFor ''Proposal Drafting'' = ''Proposal Manager'' \<and>
   ownerFor ''Legal Review'' = ''Legal Team'' \<and>
   ownerFor ''Pricing Review'' = ''Finance Team'' \<and>
   ownerFor ''Submission'' = ''Sales Lead'' \<and>
   ownerFor ''Evaluation'' = ''Client'' \<and>
   ownerFor ''Awarded'' = ''Account Manager'' \<and>
   ownerFor ''Lost'' = ''Sales Lead'' \<and>
   dict_keys BID_STAGES =
     [''Proposal Drafting'', ''Legal Review'', ''Pricing Review'', ''Submission'',
      ''Evaluation'', ''Awarded'', ''Lost''] \<and>
   (s \<notin> set (dict_keys BID_STAGES) \<longrightarrow> ownerFor s = ''Unassigned'')"
  using ownerFor_outside [of s]
  by (simp add: ownerFor_def dict_get_def dict_keys_def BID_STAGES_def)

theorem C6_ownerFor_registry_witness:
  "''Kickoff'' \<notin> set (dict_keys BID_STAGES) \<and> ownerFor ''Kickoff'' = ''Unassigned'' \<and>
   ownerFor ''Legal Review'' = ''Legal Team''"
  using C6_ownerFor_registry [of "''Kickoff''"]
  by (simp add: dict_keys_def BID_STAGES_def)

section \<open>The single-open-interval invariant\<close>

lemma open_intervals_update_same:
  "open_intervals b (update_bid_stage tc ts b s n db) =
     [\<lparr>bs_id = autoincrement (bid_stages_seq db) (map bs_id (bid_stages db)), bs_bid_id = b,
       bs_stage = s, bs_stage_owner = ownerFor s, bs_started_at = ts,
       bs_completed_at = None, bs_notes = n\<rparr>]"
  by (simp add: open_intervals_def update_bid_stage_def Let_def filter_map o_def complete_current_def)

lemma filter_complete_other:
  "b' \<noteq> b \<Longrightarrow>
   filter (\<lambda>r. bs_bid_id r = b' \<and> bs_completed_at r = None) (map (complete_current tc b) xs) =
   filter (\<lambda>r. bs_bid_id r = b' \<and> bs_completed_at r = None) xs"
  by (induction xs) (auto simp: complete_current_def)

lemma open_intervals_update_other:
  "b' \<noteq> b \<Longrightarrow> open_intervals b' (update_bid_stage tc ts b s n db) = open_intervals b' db"
  by (simp add: open_intervals_def update_bid_stage_def Let_def filter_complete_other)

lemma open_intervals_log [simp]:
  "open_intervals b (log_bid_history t u i f ov nv db) = open_intervals b db"
  by (simp add: open_intervals_def log_bid_history_def Let_def)

lemma open_intervals_bids_update [simp]:
  "open_intervals b (db\<lparr>bids := x\<rparr>) = open_intervals b db"
  "open_intervals b (db\<lparr>bids_seq := y\<rparr>) = open_intervals b db"
  by (simp_all add: open_intervals_def)

lemma single_open_iff: "single_open db \<longleftrightarrow> (\<forall>b. length (open_intervals b db) \<le> 1)"
proof
  assume so: "single_open db"
  show "\<forall>b. length (open_intervals b db) \<le> 1"
  proof
    fix b
    show "length (open_intervals b db) \<le> 1"
    proof (cases "open_intervals b db")
      case Nil
      then show ?thesis by simp
    next
      case (Cons r rs)
      then have "r \<in> set (open_intervals b db)" by simp
      then have "r \<in> set (bid_stages db)" and "bs_bid_id r = b"
        by (simp_all add: open_intervals_def)
      with so show ?thesis
        by (auto simp: single_open_def list_all_iff)
    qed
  qed
next
  assume "\<forall>b. length (open_intervals b db) \<le> 1"
  then show "single_open db"
    by (simp add: single_open_def list_all_iff)
qed

lemma update_bid_stage_le1:
  "length (open_intervals b' db) \<le> 1 \<Longrightarrow>
   length (open_intervals b' (update_bid_stage tc ts b s n db)) \<le> 1"
  by (cases "b' = b") (simp_all add: open_intervals_update_same open_intervals_update_other)

lemma create_bid_le1:
  "length (open_intervals b db) \<le> 1 \<Longrightarrow>
   length (open_intervals b (snd (create_bid u t1 t2 t3 f db))) \<le> 1"
  by (simp add: create_bid_def Let_def update_bid_stage_le1 del: One_nat_def)

lemma manage_bid_process_le1:
  "length (open_intervals b db) \<le> 1 \<Longrightarrow>
   length (open_intervals b (snd (manage_bid_process u t1 t2 t3 i act db))) \<le> 1"
  by (cases act)
     (simp_all add: manage_bid_process_def Let_def update_bid_stage_le1 del: One_nat_def
        split: list.splits)

lemma step_le1:
  "length (open_intervals b db) \<le> 1 \<Longrightarrow> length (open_intervals b (step e r db)) \<le> 1"
  by (cases r) (simp_all add: create_bid_le1 manage_bid_process_le1 del: One_nat_def)

lemma run_le1:
  "length (open_intervals b db) \<le> 1 \<Longrightarrow> length (open_intervals b (run rs db)) \<le> 1"
proof (induction rs arbitrary: db)
  case Nil
  then show ?case by simp
next
  case (Cons x rs)
  obtain e r where x: "x = (e, r)" by (cases x)
  from Cons.prems have "length (open_intervals b (step e r db)) \<le> 1"
    by (rule step_le1)
  then show ?case
    unfolding x by (simp add: Cons.IH del: One_nat_def)
qed


text \<open>
  Claim C1. Starting from a store in which no bid has two open intervals (the empty store is
  one), every sequence of create, status-update and stage-transition requests ends in a
  store in which every bid has at most one interval with \<open>completed_at = None\<close>.
\<close>

theorem C1_single_open_preserved:
  "single_open db \<Longrightarrow>
   single_open (run rs db) \<and> length (open_intervals b (run rs db)) \<le> 1"
  using run_le1 [of _ db rs] by (simp add: single_open_iff del: One_nat_def)

theorem C1_single_open_preserved_witness:
  "single_open empty_db \<and>
   single_open (run [(env_at 1, CreateBid form_acme),
                     (env_at 5, ManageBid 1 (TransitionStage ''Legal Review'' ''ready'')),
                     (env_at 9, ManageBid 1 (UpdateStatus ''Won'' []))] empty_db)"
proof -
  have h: "single_open empty_db"
    by (simp add: single_open_def empty_db_def)
  from C1_single_open_preserved [OF h] h show ?thesis by blast
qed

lemma nth_complete_current:
  "bs_bid_id r = b \<Longrightarrow>
   bs_completed_at (complete_current tc b r) \<noteq> None \<and>
   (bs_completed_at r = None \<longrightarrow> bs_completed_at (complete_current tc b r) = Some tc)"
  by (simp add: complete_current_def)

text \<open>
  Claim C9. \<open>update_bid_stage\<close> completes every open row of the bid, not only the latest:
  afterwards the bid has exactly one open interval, and every row of the bid that was in
  the table before the call is completed, with the closing time of this call when it was
  open.
\<close>

theorem C9_update_bid_stage_closes_all:
  "length (open_intervals b (update_bid_stage tc ts b s n db)) = 1 \<and>
   (\<forall>i < length (bid_stages db).
      bs_bid_id (bid_stages db ! i) = b \<longrightarrow>
      bs_completed_at (bid_stages (update_bid_stage tc ts b s n db) ! i) \<noteq> None \<and>
      (bs_completed_at (bid_stages db ! i) = None \<longrightarrow>
       bs_completed_at (bid_stages (update_bid_stage tc ts b s n db) ! i) = Some tc))"
proof (intro conjI allI impI)
  show "length (open_intervals b (update_bid_stage tc ts b s n db)) = 1"
    by (simp add: open_intervals_update_same)
next
  fix i
  assume i: "i < length (bid_stages db)" and b: "bs_bid_id (bid_stages db ! i) = b"
  have nth: "bid_stages (update_bid_stage tc ts b s n db) ! i =
             complete_current tc b (bid_stages db ! i)"
    using i by (simp add: update_bid_stage_def Let_def nth_append)
  show "bs_completed_at (bid_stages (update_bid_stage tc ts b s n db) ! i) \<noteq> None"
    unfolding nth using nth_complete_current [OF b] by blast
  assume "bs_completed_at (bid_stages db ! i) = None"
  then show "bs_completed_at (bid_stages (update_bid_stage tc ts b s n db) ! i) = Some tc"
    unfolding nth using nth_complete_current [OF b] by blast
qed

theorem C9_update_bid_stage_closes_all_witness:
  "length (open_intervals 1 two_open_db) = 2 \<and>
   length (open_intervals 1 (update_bid_stage 7 8 1 ''Submission'' [] two_open_db)) = 1 \<and>
   map bs_completed_at (bid_stages (update_bid_stage 7 8 1 ''Submission'' [] two_open_db)) =
     [Some 7, Some 7, None]"
proof -
  have a: "length (open_intervals 1 two_open_db) = 2"
    by (simp add: open_intervals_def two_open_db_def empty_db_def)
  have c: "map bs_completed_at (bid_stages (update_bid_stage 7 8 1 ''Submission'' [] two_open_db)) =
     [Some 7, Some 7, None]"
    by (simp add: update_bid_stage_def two_open_db_def empty_db_def Let_def complete_current_def)
  from a c C9_update_bid_stage_closes_all [of 1 7 8 "''Submission''" "[]" two_open_db]
  show ?thesis by blast
qed

section \<open>The stage field of a bid\<close>

text \<open>
  Claim C2. The claim asks that the \<open>stage\<close> field of a bid names its open interval after
  every operation. The status update to \<open>Won\<close> opens the interval \<open>Awarded\<close> and leaves
  the field at \<open>Proposal Drafting\<close>: line 405 calls \<^verbatim>\<open>update_bid_stage\<close> without the
  \<^verbatim>\<open>UPDATE bids SET stage\<close> that the transition button issues on line 429. The theorem
  evaluates the code on that input.
\<close>

theorem C2_stage_field_stale_after_won:
  "map b_stage (bids (run [(env_at 1, CreateBid form_acme),
                           (env_at 5, ManageBid 1 (UpdateStatus ''Won'' []))] empty_db)) =
     [''Proposal Drafting''] \<and>
   map bs_stage (open_intervals 1 (run [(env_at 1, CreateBid form_acme),
                           (env_at 5, ManageBid 1 (UpdateStatus ''Won'' []))] empty_db)) =
     [''Awarded'']"
  by (simp add: env_at_def form_acme_def empty_db_def create_bid_def manage_bid_process_def
      update_bid_stage_def log_bid_history_def autoincrement_def Let_def open_intervals_def
      complete_current_def set_status_reason_def)

section \<open>Keys and lookups\<close>

lemma filter_distinct_key:
  "distinct (map f xs) \<Longrightarrow> x \<in> set xs \<Longrightarrow> filter (\<lambda>y. f y = f x) xs = [x]"
proof (induction xs)
  case Nil
  then show ?case by simp
next
  case (Cons a xs)
  show ?case
  proof (cases "a = x")
    case True
    with Cons.prems have "\<forall>y\<in>set xs. f y \<noteq> f x" by (auto simp: image_iff)
    then have "filter (\<lambda>y. f y = f x) xs = []" by (simp add: filter_empty_conv)
    with True show ?thesis by simp
  next
    case False
    with Cons.prems have x: "x \<in> set xs" and d: "distinct (map f xs)" by simp_all
    from Cons.prems x have "f a \<noteq> f x" by (auto simp: image_iff)
    with Cons.IH [OF d x] show ?thesis by simp
  qed
qed

lemma fold_max_ge_seq: "(s::nat) \<le> fold max xs s"
  by (induction xs arbitrary: s) (auto intro: order_trans [OF max.cobounded2])

lemma fold_max_ge_elem: "(x::nat) \<in> set xs \<Longrightarrow> x \<le> fold max xs s"
proof (induction xs arbitrary: s)
  case Nil
  then show ?case by simp
next
  case (Cons a xs)
  show ?case
  proof (cases "x = a")
    case True
    have "a \<le> max a s" by simp
    also have "\<dots> \<le> fold max xs (max a s)" by (rule fold_max_ge_seq)
    finally show ?thesis using True by simp
  next
    case False
    with Cons.prems have "x \<in> set xs" by simp
    then show ?thesis by (simp add: Cons.IH)
  qed
qed

lemma autoincrement_fresh: "k \<in> set keys \<Longrightarrow> k < autoincrement seq keys"
  by (simp add: autoincrement_def fold_max_ge_elem less_Suc_eq_le)

section \<open>Stage transitions\<close>







lemma b_id_set_stage [simp]: "b_id (set_stage i s b) = b_id b"
  by (simp add: set_stage_def)


lemma one_bid_db_eq:
  "one_bid_db =
    \<lparr>bids = [\<lparr>b_id = 1, b_title = ''Acme Deal'', b_description = [],
        b_status = ''Open'', b_stage = ''Proposal Drafting'',
        b_due_date = 10, b_assigned_to = ''Jane'', b_created_by = ''admin'',
        b_created_at = 1, b_client_name = ''Acme Corp'', b_bid_value = 1000,
        b_reason = None\<rparr>],
    bids_seq = 1, bid_history = [], bid_history_seq = 0,
    bid_stages =
      [\<lparr>bs_id = 1, bs_bid_id = 1, bs_stage = ''Proposal Drafting'',
          bs_stage_owner = ''Proposal Manager'', bs_started_at = 3,
          bs_completed_at = None, bs_notes = ''Bid created''\<rparr>],
    bid_stages_seq = 1\<rparr>"
  by (simp add: one_bid_db_def env_at_def form_acme_def empty_db_def create_bid_def
      update_bid_stage_def autoincrement_def Let_def ownerFor_def dict_get_def BID_STAGES_def)



section \<open>Status updates\<close>

lemma setStatus_found:
  assumes "0 < bid_id" and "filter (\<lambda>b. b_id b = bid_id) (bids db) = b0 # rest"
  shows "setStatus user tlog tc ts bid_id new_status loss_reason db =
    (Inr (),
     let reason = (if new_status = ''Lost'' then loss_reason else []);
         db2 = log_bid_history tlog user bid_id ''status'' (b_status b0) new_status
                 (db\<lparr>bids := map (set_status_reason bid_id new_status reason) (bids db)\<rparr>)
     in if new_status = ''Won''
        then update_bid_stage tc ts bid_id ''Awarded'' ''Bid won!'' db2
        else if new_status = ''Lost''
        then update_bid_stage tc ts bid_id ''Lost'' (''Bid lost: '' @ reason) db2
        else db2)"
  using assms by (simp add: setStatus_def manage_bid_process_def Let_def)

lemma bids_update_bid_stage [simp]: "bids (update_bid_stage tc ts b s n db) = bids db"
  by (simp add: update_bid_stage_def Let_def)

lemma bid_history_update_bid_stage [simp]:
  "bid_history (update_bid_stage tc ts b s n db) = bid_history db"
  by (simp add: update_bid_stage_def Let_def)

lemma bids_log_bid_history [simp]: "bids (log_bid_history t u i f ov nv db) = bids db"
  by (simp add: log_bid_history_def Let_def)

lemma bid_stages_log_bid_history [simp]:
  "bid_stages (log_bid_history t u i f ov nv db) = bid_stages db"
  by (simp add: log_bid_history_def Let_def)

lemma closed_rows_update_bid_stage:
  "r \<in> set (open_intervals b db) \<Longrightarrow>
   r\<lparr>bs_completed_at := Some tc\<rparr> \<in> set (bid_stages (update_bid_stage tc ts b s n db))"
  by (auto simp: open_intervals_def update_bid_stage_def Let_def complete_current_def image_iff
      intro!: bexI [of _ r])



lemma b_id_set_status_reason [simp]: "b_id (set_status_reason i s r b) = b_id b"
  by (simp add: set_status_reason_def)

lemma set_status_reason_written:
  "b_id b = i \<Longrightarrow>
   b_status (set_status_reason i s r b) = s \<and> b_reason (set_status_reason i s r b) = Some r"
  by (simp add: set_status_reason_def)

lemma bids_written:
  "\<forall>b\<in>set (map (set_status_reason i s r) xs).
     b_id b = i \<longrightarrow> b_status b = s \<and> b_reason b = Some r"
proof
  fix b
  assume "b \<in> set (map (set_status_reason i s r) xs)"
  then obtain x where b: "b = set_status_reason i s r x" by auto
  show "b_id b = i \<longrightarrow> b_status b = s \<and> b_reason b = Some r"
    unfolding b using set_status_reason_written [of x i s r] by simp
qed

text \<open>
  Claim C4. For an existing bid (keys of \<^verbatim>\<open>bids\<close> are distinct, \<open>b0\<close> is its row), the
  status update succeeds, writes the new status and the reason on the row of the bid and
  leaves the table with the same rows otherwise, appends exactly one history row with field \<open>status\<close>, the prior status as old value and the new status
  as new value, and for \<open>Won\<close> (\<open>Lost\<close>) leaves exactly one open interval, \<open>Awarded\<close>
  with notes \<open>Bid won!\<close> (\<open>Lost\<close> with notes \<open>Bid lost: \<close> and the reason), every
  interval that was open before being completed at the closing time. Any other status
  leaves \<^verbatim>\<open>bid_stages\<close> as it was.
\<close>

theorem C4_setStatus_effect:
  assumes "0 < bid_id" and "distinct (map b_id (bids db))"
    and "b0 \<in> set (bids db)" and "b_id b0 = bid_id"
  shows "\<exists>db' h.
     setStatus user tlog tc ts bid_id new_status loss_reason db = (Inr (), db') \<and>
     bids db' =
       map (set_status_reason bid_id new_status
              (if new_status = ''Lost'' then loss_reason else [])) (bids db) \<and>
     b0\<lparr>b_status := new_status,
        b_reason := Some (if new_status = ''Lost'' then loss_reason else [])\<rparr> \<in> set (bids db') \<and>
     (\<forall>b\<in>set (bids db'). b_id b = bid_id \<longrightarrow>
        b_status b = new_status \<and>
        b_reason b = Some (if new_status = ''Lost'' then loss_reason else [])) \<and>
     bid_history db' = bid_history db @ [h] \<and>
     h_bid_id h = bid_id \<and> h_field_changed h = ''status'' \<and>
     h_old_value h = b_status b0 \<and> h_new_value h = new_status \<and>
     h_changed_by h = user \<and> h_changed_at h = tlog \<and>
     (new_status = ''Won'' \<longrightarrow>
        (\<exists>r. open_intervals bid_id db' = [r] \<and> bs_stage r = ''Awarded'' \<and>
             bs_notes r = ''Bid won!'' \<and> bs_started_at r = ts) \<and>
        length (bid_stages db') = Suc (length (bid_stages db)) \<and>
        (\<forall>r\<in>set (open_intervals bid_id db).
           r\<lparr>bs_completed_at := Some tc\<rparr> \<in> set (bid_stages db'))) \<and>
     (new_status = ''Lost'' \<longrightarrow>
        (\<exists>r. open_intervals bid_id db' = [r] \<and> bs_stage r = ''Lost'' \<and>
             bs_notes r = ''Bid lost: '' @ loss_reason \<and> bs_started_at r = ts) \<and>
        length (bid_stages db') = Suc (length (bid_stages db)) \<and>
        (\<forall>r\<in>set (open_intervals bid_id db).
           r\<lparr>bs_completed_at := Some tc\<rparr> \<in> set (bid_stages db'))) \<and>
     (new_status \<noteq> ''Won'' \<and> new_status \<noteq> ''Lost'' \<longrightarrow> bid_stages db' = bid_stages db)"
proof -
  define reason where "reason = (if new_status = ''Lost'' then loss_reason else [])"
  define db2 where "db2 = log_bid_history tlog user bid_id ''status'' (b_status b0) new_status
                 (db\<lparr>bids := map (set_status_reason bid_id new_status reason) (bids db)\<rparr>)"
  define db' where "db' = (if new_status = ''Won''
        then update_bid_stage tc ts bid_id ''Awarded'' ''Bid won!'' db2
        else if new_status = ''Lost''
        then update_bid_stage tc ts bid_id ''Lost'' (''Bid lost: '' @ reason) db2
        else db2)"
  define h where "h = \<lparr>h_id = autoincrement (bid_history_seq db) (map h_id (bid_history db)),
      h_bid_id = bid_id, h_changed_at = tlog, h_changed_by = user,
      h_field_changed = ''status'', h_old_value = b_status b0, h_new_value = new_status\<rparr>"
  have look: "filter (\<lambda>b. b_id b = bid_id) (bids db) = b0 # []"
    using filter_distinct_key [OF assms(2,3)] assms(4) by simp
  have res: "setStatus user tlog tc ts bid_id new_status loss_reason db = (Inr (), db')"
    unfolding setStatus_found [OF assms(1) look] db'_def db2_def reason_def
    by (simp add: Let_def)
  have bids': "bids db' = map (set_status_reason bid_id new_status reason) (bids db)"
    by (simp add: db'_def db2_def)
  have written: "\<forall>b\<in>set (bids db'). b_id b = bid_id \<longrightarrow>
        b_status b = new_status \<and> b_reason b = Some reason"
    unfolding bids' by (rule bids_written)
  have row: "b0\<lparr>b_status := new_status, b_reason := Some reason\<rparr> \<in> set (bids db')"
  proof -
    have "set_status_reason bid_id new_status reason b0 \<in> set (bids db')"
      unfolding bids' using assms(3) by simp
    then show ?thesis
      using assms(4) by (simp add: set_status_reason_def)
  qed
  have hist: "bid_history db' = bid_history db @ [h]"
    by (simp add: db'_def db2_def h_def log_bid_history_def Let_def)
  have stages2: "bid_stages db2 = bid_stages db" by (simp add: db2_def)
  have open2: "open_intervals bid_id db2 = open_intervals bid_id db"
    by (simp add: db2_def)
  have won: "new_status = ''Won'' \<Longrightarrow>
        (\<exists>r. open_intervals bid_id db' = [r] \<and> bs_stage r = ''Awarded'' \<and>
             bs_notes r = ''Bid won!'' \<and> bs_started_at r = ts) \<and>
        length (bid_stages db') = Suc (length (bid_stages db)) \<and>
        (\<forall>r\<in>set (open_intervals bid_id db).
           r\<lparr>bs_completed_at := Some tc\<rparr> \<in> set (bid_stages db'))"
  proof -
    assume w: "new_status = ''Won''"
    then have d: "db' = update_bid_stage tc ts bid_id ''Awarded'' ''Bid won!'' db2"
      by (simp add: db'_def)
    have "length (bid_stages db') = Suc (length (bid_stages db))"
      by (simp add: d update_bid_stage_def Let_def stages2)
    moreover have "\<forall>r\<in>set (open_intervals bid_id db).
           r\<lparr>bs_completed_at := Some tc\<rparr> \<in> set (bid_stages db')"
      unfolding d using closed_rows_update_bid_stage [of _ bid_id db2] open2 by simp
    ultimately show ?thesis
      by (simp add: d open_intervals_update_same)
  qed
  have lost: "new_status = ''Lost'' \<Longrightarrow>
        (\<exists>r. open_intervals bid_id db' = [r] \<and> bs_stage r = ''Lost'' \<and>
             bs_notes r = ''Bid lost: '' @ loss_reason \<and> bs_started_at r = ts) \<and>
        length (bid_stages db') = Suc (length (bid_stages db)) \<and>
        (\<forall>r\<in>set (open_intervals bid_id db).
           r\<lparr>bs_completed_at := Some tc\<rparr> \<in> set (bid_stages db'))"
  proof -
    assume l: "new_status = ''Lost''"
    then have d: "db' = update_bid_stage tc ts bid_id ''Lost'' (''Bid lost: '' @ loss_reason) db2"
      by (simp add: db'_def reason_def)
    have "length (bid_stages db') = Suc (length (bid_stages db))"
      by (simp add: d update_bid_stage_def Let_def stages2)
    moreover have "\<forall>r\<in>set (open_intervals bid_id db).
           r\<lparr>bs_completed_at := Some tc\<rparr> \<in> set (bid_stages db')"
      unfolding d using closed_rows_update_bid_stage [of _ bid_id db2] open2 by simp
    ultimately show ?thesis
      by (simp add: d open_intervals_update_same)
  qed
  have other: "new_status \<noteq> ''Won'' \<and> new_status \<noteq> ''Lost'' \<longrightarrow> bid_stages db' = bid_stages db"
    by (simp add: db'_def stages2)
  have hf: "h_bid_id h = bid_id \<and> h_field_changed h = ''status'' \<and>
     h_old_value h = b_status b0 \<and> h_new_value h = new_status \<and>
     h_changed_by h = user \<and> h_changed_at h = tlog"
    by (simp add: h_def)
  show ?thesis
  proof (intro exI [of _ db'] exI [of _ h] conjI)
    show "setStatus user tlog tc ts bid_id new_status loss_reason db = (Inr (), db')"
      by (rule res)
    show "\<forall>b\<in>set (bids db'). b_id b = bid_id \<longrightarrow>
        b_status b = new_status \<and>
        b_reason b = Some (if new_status = ''Lost'' then loss_reason else [])"
      using written unfolding reason_def .
    show "bid_history db' = bid_history db @ [h]" by (rule hist)
    show "bids db' =
       map (set_status_reason bid_id new_status
              (if new_status = ''Lost'' then loss_reason else [])) (bids db)"
      using bids' unfolding reason_def .
    show "b0\<lparr>b_status := new_status,
        b_reason := Some (if new_status = ''Lost'' then loss_reason else [])\<rparr> \<in> set (bids db')"
      using row unfolding reason_def .
    show "new_status = ''Won'' \<longrightarrow>
        (\<exists>r. open_intervals bid_id db' = [r] \<and> bs_stage r = ''Awarded'' \<and>
             bs_notes r = ''Bid won!'' \<and> bs_started_at r = ts) \<and>
        length (bid_stages db') = Suc (length (bid_stages db)) \<and>
        (\<forall>r\<in>set (open_intervals bid_id db).
           r\<lparr>bs_completed_at := Some tc\<rparr> \<in> set (bid_stages db'))"
      using won by (rule impI)
    show "new_status = ''Lost'' \<longrightarrow>
        (\<exists>r. open_intervals bid_id db' = [r] \<and> bs_stage r = ''Lost'' \<and>
             bs_notes r = ''Bid lost: '' @ loss_reason \<and> bs_started_at r = ts) \<and>
        length (bid_stages db') = Suc (length (bid_stages db)) \<and>
        (\<forall>r\<in>set (open_intervals bid_id db).
           r\<lparr>bs_completed_at := Some tc\<rparr> \<in> set (bid_stages db'))"
      using lost by (rule impI)
    show "new_status \<noteq> ''Won'' \<and> new_status \<noteq> ''Lost'' \<longrightarrow> bid_stages db' = bid_stages db"
      by (rule other)
  qed (simp_all add: hf)
qed





theorem C4_setStatus_effect_witness:
  "(0::nat) < 1 \<and> distinct (map b_id (bids one_bid_db)) \<and>
   hd (bids one_bid_db) \<in> set (bids one_bid_db) \<and> b_id (hd (bids one_bid_db)) = 1 \<and>
   (\<exists>db' h. setStatus ''jane'' 4 5 6 1 ''Lost'' ''Pricing too high'' one_bid_db = (Inr (), db') \<and>
      map b_id (bids db') = [1] \<and> map b_status (bids db') = [''Lost''] \<and>
      map b_reason (bids db') = [Some ''Pricing too high''] \<and>
      bid_history db' = [h] \<and> h_field_changed h = ''status'' \<and>
      h_old_value h = ''Open'' \<and> h_new_value h = ''Lost'' \<and>
      (\<exists>r. open_intervals 1 db' = [r] \<and> bs_stage r = ''Lost'' \<and>
           bs_notes r = ''Bid lost: Pricing too high''))"
proof -
  have h1: "(0::nat) < 1" by simp
  have h2: "distinct (map b_id (bids one_bid_db))" by (simp add: one_bid_db_eq)
  have h3: "hd (bids one_bid_db) \<in> set (bids one_bid_db)" by (simp add: one_bid_db_eq)
  have h4: "b_id (hd (bids one_bid_db)) = 1" by (simp add: one_bid_db_eq)
  have old: "b_status (hd (bids one_bid_db)) = ''Open''" by (simp add: one_bid_db_eq)
  have nohist: "bid_history one_bid_db = []" by (simp add: one_bid_db_eq)
  from C4_setStatus_effect [OF h1 h2 h3 h4, of "''jane''" 4 5 6 "''Lost''" "''Pricing too high''"]
  obtain db' h where
    r: "setStatus ''jane'' 4 5 6 1 ''Lost'' ''Pricing too high'' one_bid_db = (Inr (), db')"
    and bd: "bids db' =
       map (set_status_reason 1 ''Lost''
              (if ''Lost'' = ''Lost'' then ''Pricing too high'' else [])) (bids one_bid_db)"
    and hist: "bid_history db' = bid_history one_bid_db @ [h]"
    and hf: "h_field_changed h = ''status''" "h_old_value h = b_status (hd (bids one_bid_db))"
      "h_new_value h = ''Lost''"
    and lost: "\<exists>r. open_intervals 1 db' = [r] \<and> bs_stage r = ''Lost'' \<and>
             bs_notes r = ''Bid lost: '' @ ''Pricing too high'' \<and> bs_started_at r = 6"
    by auto
  from lost have lost': "\<exists>r. open_intervals 1 db' = [r] \<and> bs_stage r = ''Lost'' \<and>
           bs_notes r = ''Bid lost: Pricing too high''"
    by auto
  from hist nohist have hist': "bid_history db' = [h]" by simp
  from hf old have old': "h_old_value h = ''Open''" by simp
  from bd have bd': "map b_id (bids db') = [1] \<and> map b_status (bids db') = [''Lost''] \<and>
      map b_reason (bids db') = [Some ''Pricing too high'']"
    by (simp add: one_bid_db_eq set_status_reason_def)
  have "\<exists>db' h. setStatus ''jane'' 4 5 6 1 ''Lost'' ''Pricing too high'' one_bid_db = (Inr (), db') \<and>
      map b_id (bids db') = [1] \<and> map b_status (bids db') = [''Lost''] \<and>
      map b_reason (bids db') = [Some ''Pricing too high''] \<and>
      bid_history db' = [h] \<and> h_field_changed h = ''status'' \<and>
      h_old_value h = ''Open'' \<and> h_new_value h = ''Lost'' \<and>
      (\<exists>r. open_intervals 1 db' = [r] \<and> bs_stage r = ''Lost'' \<and>
           bs_notes r = ''Bid lost: Pricing too high'')"
    apply (rule exI [of _ db'], rule exI [of _ h])
    using r bd' hist' hf(1) old' hf(3) lost' apply simp
    done
  with h1 h2 h3 h4 show ?thesis by simp
qed

section \<open>Frame of the status update\<close>

lemma setStatus_bids:
  "(fst (setStatus user tlog tc ts bid_id new_status loss_reason db) = Inr () \<and>
    bids (snd (setStatus user tlog tc ts bid_id new_status loss_reason db)) =
      map (set_status_reason bid_id new_status (if new_status = ''Lost'' then loss_reason else []))
        (bids db)) \<or>
   (fst (setStatus user tlog tc ts bid_id new_status loss_reason db) \<noteq> Inr () \<and>
    snd (setStatus user tlog tc ts bid_id new_status loss_reason db) = db)"
  by (simp add: setStatus_def manage_bid_process_def Let_def split: list.splits)

lemma set_status_reason_frame:
  "b_id (set_status_reason i s r b) = b_id b \<and>
   b_title (set_status_reason i s r b) = b_title b \<and>
   b_description (set_status_reason i s r b) = b_description b \<and>
   b_due_date (set_status_reason i s r b) = b_due_date b \<and>
   b_assigned_to (set_status_reason i s r b) = b_assigned_to b \<and>
   b_client_name (set_status_reason i s r b) = b_client_name b \<and>
   b_bid_value (set_status_reason i s r b) = b_bid_value b \<and>
   b_created_by (set_status_reason i s r b) = b_created_by b \<and>
   b_created_at (set_status_reason i s r b) = b_created_at b \<and>
   b_stage (set_status_reason i s r b) = b_stage b \<and>
   (b_id b \<noteq> i \<longrightarrow> set_status_reason i s r b = b)"
  by (simp add: set_status_reason_def)

lemma same_but_refl: "same_but_status_reason i b b"
  by (simp add: same_but_status_reason_def)

lemma same_but_set: "same_but_status_reason i b (set_status_reason i s r b)"
  unfolding same_but_status_reason_def using set_status_reason_frame [of i s r b] by blast

text \<open>
  Claim C10. The status update changes no column of \<^verbatim>\<open>bids\<close> other than
  \<^verbatim>\<open>status\<close> and \<^verbatim>\<open>reason\<close> (the stage column among those kept), and changes no
  other row; when it succeeds with a status other than \<open>Lost\<close>, the reason of the bid is
  the empty string afterwards, whatever it was.
\<close>

theorem C10_setStatus_frame:
  "list_all2 (same_but_status_reason bid_id) (bids db)
     (bids (snd (setStatus user tlog tc ts bid_id new_status loss_reason db))) \<and>
   (fst (setStatus user tlog tc ts bid_id new_status loss_reason db) = Inr () \<and>
    new_status \<noteq> ''Lost'' \<longrightarrow>
    (\<forall>b\<in>set (bids (snd (setStatus user tlog tc ts bid_id new_status loss_reason db))).
       b_id b = bid_id \<longrightarrow> b_status b = new_status \<and> b_reason b = Some []))"
proof -
  let ?R = "setStatus user tlog tc ts bid_id new_status loss_reason db"
  let ?reason = "if new_status = ''Lost'' then loss_reason else []"
  from setStatus_bids [of user tlog tc ts bid_id new_status loss_reason db]
  consider (ok) "fst ?R = Inr ()"
      "bids (snd ?R) = map (set_status_reason bid_id new_status ?reason) (bids db)"
    | (err) "fst ?R \<noteq> Inr ()" "snd ?R = db"
    by blast
  then show ?thesis
  proof cases
    case ok
    have "list_all2 (same_but_status_reason bid_id) (bids db)
            (map (set_status_reason bid_id new_status ?reason) (bids db))"
      by (simp add: list_all2_map2 list_all2_same same_but_set)
    moreover have "new_status \<noteq> ''Lost'' \<longrightarrow>
      (\<forall>b\<in>set (map (set_status_reason bid_id new_status ?reason) (bids db)).
         b_id b = bid_id \<longrightarrow> b_status b = new_status \<and> b_reason b = Some [])"
      using bids_written [of bid_id new_status "[]" "bids db"] by simp
    ultimately show ?thesis
      unfolding ok(2) by blast
  next
    case err
    have "list_all2 (same_but_status_reason bid_id) (bids db) (bids db)"
      by (simp add: list_all2_same same_but_refl)
    with err show ?thesis by simp
  qed
qed


lemma lost_bid_db_bids:
  "bids lost_bid_db =
    [\<lparr>b_id = 1, b_title = ''Acme Deal'', b_description = [],
        b_status = ''Lost'', b_stage = ''Proposal Drafting'',
        b_due_date = 10, b_assigned_to = ''Jane'', b_created_by = ''admin'',
        b_created_at = 1, b_client_name = ''Acme Corp'', b_bid_value = 1000,
        b_reason = Some ''Pricing too high''\<rparr>]"
  by (simp add: lost_bid_db_def env_at_def form_acme_def empty_db_def create_bid_def
      manage_bid_process_def autoincrement_def Let_def set_status_reason_def)

theorem C10_setStatus_frame_witness:
  "map b_reason (bids lost_bid_db) = [Some ''Pricing too high''] \<and>
   fst (setStatus ''jane'' 9 10 11 1 ''Submitted'' ''Other'' lost_bid_db) = Inr () \<and>
   ''Submitted'' \<noteq> ''Lost'' \<and>
   map b_id (bids (snd (setStatus ''jane'' 9 10 11 1 ''Submitted'' ''Other'' lost_bid_db))) = [1] \<and>
   map b_status (bids (snd (setStatus ''jane'' 9 10 11 1 ''Submitted'' ''Other'' lost_bid_db))) =
     [''Submitted''] \<and>
   map b_reason (bids (snd (setStatus ''jane'' 9 10 11 1 ''Submitted'' ''Other'' lost_bid_db))) =
     [Some []] \<and>
   list_all2 (same_but_status_reason 1) (bids lost_bid_db)
     (bids (snd (setStatus ''jane'' 9 10 11 1 ''Submitted'' ''Other'' lost_bid_db)))"
proof -
  let ?R = "setStatus ''jane'' 9 10 11 1 ''Submitted'' ''Other'' lost_bid_db"
  have a: "map b_reason (bids lost_bid_db) = [Some ''Pricing too high'']"
    by (simp add: lost_bid_db_bids)
  have b: "fst ?R = Inr ()"
    by (simp add: setStatus_def manage_bid_process_def lost_bid_db_bids Let_def)
  have c: "''Submitted'' \<noteq> ''Lost''" by simp
  have d: "map b_id (bids (snd ?R)) = [1]"
    by (simp add: setStatus_def manage_bid_process_def lost_bid_db_bids Let_def)
  then obtain x where x: "bids (snd ?R) = [x]" and xid: "b_id x = 1"
    by (cases "bids (snd ?R)") auto
  note t = C10_setStatus_frame [of 1 lost_bid_db "''jane''" 9 10 11 "''Submitted''" "''Other''"]
  from t b c x xid have w: "b_status x = ''Submitted'' \<and> b_reason x = Some []"
    by simp
  from t have fr: "list_all2 (same_but_status_reason 1) (bids lost_bid_db) (bids (snd ?R))"
    by blast
  from a b c d w fr show ?thesis
    unfolding x by simp
qed

section \<open>Creating a bid\<close>

lemma create_bid_invalid:
  "f_title f = [] \<or> f_client_name f = [] \<or> f_assigned_to f = [] \<Longrightarrow>
   create_bid user t1 tc ts f db = (Inl ValidationError, db)"
  by (simp add: create_bid_def)

lemma autoincrement_not_in: "autoincrement seq keys \<notin> set keys"
  using autoincrement_fresh [of "autoincrement seq keys" keys seq] by auto

lemma bs_bid_id_complete_current [simp]: "bs_bid_id (complete_current tc b r) = bs_bid_id r"
  by (simp add: complete_current_def)

lemma filter_bid_complete_current:
  "filter (\<lambda>r. bs_bid_id r = b') (map (complete_current tc b) xs) =
   map (complete_current tc b) (filter (\<lambda>r. bs_bid_id r = b') xs)"
  by (induction xs) simp_all

lemma open_of_stages_of_bid:
  "filter (\<lambda>x. bs_completed_at x = None) (stages_of_bid b db) = sort_key bs_started_at (open_intervals b db)"
  by (simp add: stages_of_bid_def open_intervals_def filter_sort conj_commute)

lemma stages_of_bid_update_fresh:
  assumes "\<forall>x\<in>set (bid_stages db). bs_bid_id x \<noteq> b"
  shows "stages_of_bid b (update_bid_stage tc ts b s n db) =
         open_intervals b (update_bid_stage tc ts b s n db)"
proof -
  from assms have "filter (\<lambda>r. bs_bid_id r = b) (bid_stages db) = []"
    by (simp add: filter_empty_conv)
  then have "stages_of_bid b (update_bid_stage tc ts b s n db) =
     [\<lparr>bs_id = autoincrement (bid_stages_seq db) (map bs_id (bid_stages db)), bs_bid_id = b,
       bs_stage = s, bs_stage_owner = ownerFor s, bs_started_at = ts,
       bs_completed_at = None, bs_notes = n\<rparr>]"
    by (simp add: stages_of_bid_def update_bid_stage_def Let_def filter_bid_complete_current)
  then show ?thesis
    by (simp only: open_intervals_update_same)
qed

text \<open>
  Claim C5. With title, client name and assignee all non-empty, \<open>create_bid\<close> appends one
  bid with a fresh key, status \<open>Open\<close> and stage \<open>Proposal Drafting\<close>, appends one interval
  row for it (stage \<open>Proposal Drafting\<close>, notes \<open>Bid created\<close>, open), which is then the
  only open interval the bid's interval query returns, and the only interval at all when
  every stored interval belongs to a stored bid; the history table is untouched. With any
  of the three fields empty the result is \<open>ValidationError\<close> and the store is unchanged.
\<close>

theorem C5_create_bid:
  "(f_title f \<noteq> [] \<and> f_client_name f \<noteq> [] \<and> f_assigned_to f \<noteq> [] \<longrightarrow>
     (\<exists>bid_id b r db'.
        create_bid user t1 tc ts f db = (Inr bid_id, db') \<and>
        bids db' = bids db @ [b] \<and> b_id b = bid_id \<and> bid_id \<notin> b_id ` set (bids db) \<and>
        b_status b = ''Open'' \<and> b_stage b = ''Proposal Drafting'' \<and>
        b_title b = f_title f \<and> b_client_name b = f_client_name f \<and>
        b_assigned_to b = f_assigned_to f \<and>
        length (bid_stages db') = Suc (length (bid_stages db)) \<and>
        last (bid_stages db') = r \<and> bs_bid_id r = bid_id \<and>
        bs_stage r = ''Proposal Drafting'' \<and> bs_notes r = ''Bid created'' \<and>
        bs_stage_owner r = ''Proposal Manager'' \<and> bs_completed_at r = None \<and>
        open_intervals bid_id db' = [r] \<and>
        filter (\<lambda>x. bs_completed_at x = None) (stages_of_bid bid_id db') = [r] \<and>
        ((\<forall>x\<in>set (bid_stages db). bs_bid_id x \<in> b_id ` set (bids db)) \<longrightarrow>
           stages_of_bid bid_id db' = [r]) \<and>
        bid_history db' = bid_history db)) \<and>
   (f_title f = [] \<or> f_client_name f = [] \<or> f_assigned_to f = [] \<longrightarrow>
      create_bid user t1 tc ts f db = (Inl ValidationError, db))"
proof (intro conjI impI)
  assume "f_title f = [] \<or> f_client_name f = [] \<or> f_assigned_to f = []"
  then show "create_bid user t1 tc ts f db = (Inl ValidationError, db)"
    by (rule create_bid_invalid)
next
  assume valid: "f_title f \<noteq> [] \<and> f_client_name f \<noteq> [] \<and> f_assigned_to f \<noteq> []"
  define bid_id where "bid_id = autoincrement (bids_seq db) (map b_id (bids db))"
  define b where "b = \<lparr>b_id = bid_id, b_title = f_title f, b_description = f_description f,
                     b_status = ''Open'', b_stage = ''Proposal Drafting'',
                     b_due_date = f_due_date f, b_assigned_to = f_assigned_to f,
                     b_created_by = user, b_created_at = t1,
                     b_client_name = f_client_name f, b_bid_value = f_bid_value f,
                     b_reason = None\<rparr>"
  define db1 where "db1 = db\<lparr>bids := bids db @ [b], bids_seq := bid_id\<rparr>"
  define db' where "db' = update_bid_stage tc ts bid_id ''Proposal Drafting'' ''Bid created'' db1"
  define r where "r = \<lparr>bs_id = autoincrement (bid_stages_seq db) (map bs_id (bid_stages db)),
       bs_bid_id = bid_id, bs_stage = ''Proposal Drafting'',
       bs_stage_owner = ownerFor ''Proposal Drafting'', bs_started_at = ts,
       bs_completed_at = None, bs_notes = ''Bid created''\<rparr>"
  have res: "create_bid user t1 tc ts f db = (Inr bid_id, db')"
    using valid by (simp add: create_bid_def Let_def db'_def db1_def b_def bid_id_def)
  have fresh: "bid_id \<notin> b_id ` set (bids db)"
    using autoincrement_not_in [of "bids_seq db" "map b_id (bids db)"]
    by (simp add: bid_id_def)
  have stages1: "bid_stages db1 = bid_stages db" "bid_stages_seq db1 = bid_stages_seq db"
    by (simp_all add: db1_def)
  have bids': "bids db' = bids db @ [b]"
    by (simp add: db'_def db1_def)
  have hist: "bid_history db' = bid_history db"
    by (simp add: db'_def db1_def)
  have len: "length (bid_stages db') = Suc (length (bid_stages db))"
    by (simp add: db'_def update_bid_stage_def Let_def stages1)
  have lst: "last (bid_stages db') = r"
    by (simp add: db'_def update_bid_stage_def Let_def stages1 r_def)
  have opn: "open_intervals bid_id db' = [r]"
    by (simp add: db'_def open_intervals_update_same stages1 r_def)
  have opn_sorted: "filter (\<lambda>x. bs_completed_at x = None) (stages_of_bid bid_id db') = [r]"
    by (simp add: open_of_stages_of_bid opn)
  have owner: "bs_stage_owner r = ''Proposal Manager''"
    by (simp add: r_def ownerFor_def dict_get_def BID_STAGES_def)
  have all: "(\<forall>x\<in>set (bid_stages db). bs_bid_id x \<in> b_id ` set (bids db)) \<longrightarrow>
           stages_of_bid bid_id db' = [r]"
  proof
    assume fk: "\<forall>x\<in>set (bid_stages db). bs_bid_id x \<in> b_id ` set (bids db)"
    with fresh have "\<forall>x\<in>set (bid_stages db1). bs_bid_id x \<noteq> bid_id"
      unfolding stages1 by blast
    from stages_of_bid_update_fresh [OF this] opn
    show "stages_of_bid bid_id db' = [r]"
      by (simp add: db'_def)
  qed
  have bf: "b_id b = bid_id \<and> b_status b = ''Open'' \<and> b_stage b = ''Proposal Drafting'' \<and>
        b_title b = f_title f \<and> b_client_name b = f_client_name f \<and>
        b_assigned_to b = f_assigned_to f"
    by (simp add: b_def)
  have rf: "bs_bid_id r = bid_id \<and> bs_stage r = ''Proposal Drafting'' \<and>
        bs_notes r = ''Bid created'' \<and> bs_completed_at r = None"
    by (simp add: r_def)
  show "\<exists>bid_id b r db'.
        create_bid user t1 tc ts f db = (Inr bid_id, db') \<and>
        bids db' = bids db @ [b] \<and> b_id b = bid_id \<and> bid_id \<notin> b_id ` set (bids db) \<and>
        b_status b = ''Open'' \<and> b_stage b = ''Proposal Drafting'' \<and>
        b_title b = f_title f \<and> b_client_name b = f_client_name f \<and>
        b_assigned_to b = f_assigned_to f \<and>
        length (bid_stages db') = Suc (length (bid_stages db)) \<and>
        last (bid_stages db') = r \<and> bs_bid_id r = bid_id \<and>
        bs_stage r = ''Proposal Drafting'' \<and> bs_notes r = ''Bid created'' \<and>
        bs_stage_owner r = ''Proposal Manager'' \<and> bs_completed_at r = None \<and>
        open_intervals bid_id db' = [r] \<and>
        filter (\<lambda>x. bs_completed_at x = None) (stages_of_bid bid_id db') = [r] \<and>
        ((\<forall>x\<in>set (bid_stages db). bs_bid_id x \<in> b_id ` set (bids db)) \<longrightarrow>
           stages_of_bid bid_id db' = [r]) \<and>
        bid_history db' = bid_history db"
  proof (intro exI [of _ bid_id] exI [of _ b] exI [of _ r] exI [of _ db'] conjI)
    show "(\<forall>x\<in>set (bid_stages db). bs_bid_id x \<in> b_id ` set (bids db)) \<longrightarrow>
           stages_of_bid bid_id db' = [r]"
      by (rule all)
  qed (simp_all add: res bids' fresh len lst opn opn_sorted owner hist bf rf)
qed


theorem C5_create_bid_witness:
  "f_title form_acme \<noteq> [] \<and> f_client_name form_acme \<noteq> [] \<and> f_assigned_to form_acme \<noteq> [] \<and>
   bs_bid_id ` set (bid_stages one_bid_db) \<subseteq> b_id ` set (bids one_bid_db) \<and>
   (\<exists>bid_id r db'. create_bid ''admin'' 11 12 13 form_acme one_bid_db = (Inr bid_id, db') \<and>
      stages_of_bid bid_id db' = [r] \<and> bs_stage r = ''Proposal Drafting'' \<and>
      bs_notes r = ''Bid created'' \<and> bs_completed_at r = None \<and>
      bid_history db' = bid_history one_bid_db) \<and>
   f_title form_untitled = [] \<and>
   create_bid ''admin'' 11 12 13 form_untitled one_bid_db = (Inl ValidationError, one_bid_db)"
proof -
  have v: "f_title form_acme \<noteq> [] \<and> f_client_name form_acme \<noteq> [] \<and> f_assigned_to form_acme \<noteq> []"
    by (simp add: form_acme_def)
  have fk: "\<forall>x\<in>set (bid_stages one_bid_db). bs_bid_id x \<in> b_id ` set (bids one_bid_db)"
    by (simp add: one_bid_db_eq)
  have u: "f_title form_untitled = []"
    by (simp add: form_untitled_def)
  from C5_create_bid [of form_acme "''admin''" 11 12 13 one_bid_db] v fk
  have ok: "\<exists>bid_id r db'. create_bid ''admin'' 11 12 13 form_acme one_bid_db = (Inr bid_id, db') \<and>
      stages_of_bid bid_id db' = [r] \<and> bs_stage r = ''Proposal Drafting'' \<and>
      bs_notes r = ''Bid created'' \<and> bs_completed_at r = None \<and>
      bid_history db' = bid_history one_bid_db"
    by blast
  from C5_create_bid [of form_untitled "''admin''" 11 12 13 one_bid_db] u
  have bad: "create_bid ''admin'' 11 12 13 form_untitled one_bid_db = (Inl ValidationError, one_bid_db)"
    by blast
  have fk': "bs_bid_id ` set (bid_stages one_bid_db) \<subseteq> b_id ` set (bids one_bid_db)"
    by (simp add: one_bid_db_eq)
  from v fk' ok u bad show ?thesis by blast
qed

section \<open>Deadline reminders\<close>

lemma two_bids_reminders:
  "show_deadline_reminders 7 two_bids_db = [(1, ''Acme Deal'', 10), (2, ''Beta Deal'', 8)]"
  by (simp add: show_deadline_reminders_def two_bids_db_def env_at_def form_acme_def
      form_beta_def empty_db_def create_bid_def update_bid_stage_def autoincrement_def Let_def)

text \<open>
  Claim C7 as stated fails on the ordering: the reminders are not ordered by due date.
  Two open bids created with due dates 10 and 8 are listed in the order of their creation.
\<close>

theorem C7_not_ordered_by_due_date:
  "show_deadline_reminders 7 two_bids_db = [(1, ''Acme Deal'', 10), (2, ''Beta Deal'', 8)] \<and>
   \<not> sorted (map (snd \<circ> snd) (show_deadline_reminders 7 two_bids_db))"
  by (simp add: two_bids_reminders)

text \<open>
  Claim C7, amended. The reminders for \<open>today\<close> are exactly the bids with status \<open>Open\<close>
  and due date at most \<open>today + 3\<close>, each once, in the order of the table; a bid with
  another status is left out even when it is due within the window.
\<close>

theorem C7_due_soon_table_order:
  "mset (show_deadline_reminders today db) =
     image_mset reminder_row
       (filter_mset (\<lambda>b. b_status b = ''Open'' \<and> b_due_date b \<le> today + 3) (mset (bids db))) \<and>
   (r \<in> set (show_deadline_reminders today db) \<longleftrightarrow>
      (\<exists>b\<in>set (bids db). r = reminder_row b \<and> b_status b = ''Open'' \<and>
                          b_due_date b \<le> today + 3)) \<and>
   subseq (show_deadline_reminders today db) (map reminder_row (bids db))"
proof (intro conjI)
  have eq: "show_deadline_reminders today db =
      map reminder_row (filter (\<lambda>b. b_status b = ''Open'' \<and> b_due_date b \<le> today + 3) (bids db))"
    by (simp add: show_deadline_reminders_def reminder_row_def conj_commute)
  show "mset (show_deadline_reminders today db) =
     image_mset reminder_row
       (filter_mset (\<lambda>b. b_status b = ''Open'' \<and> b_due_date b \<le> today + 3) (mset (bids db)))"
    by (simp add: eq)
  show "r \<in> set (show_deadline_reminders today db) \<longleftrightarrow>
      (\<exists>b\<in>set (bids db). r = reminder_row b \<and> b_status b = ''Open'' \<and>
                          b_due_date b \<le> today + 3)"
    by (auto simp: eq)
  show "subseq (show_deadline_reminders today db) (map reminder_row (bids db))"
    unfolding eq by (intro subseq_map subseq_filter_left)
qed

theorem C7_due_soon_table_order_witness:
  "map b_status (bids won_and_open_db) = [''Won'', ''Open''] \<and>
   map b_due_date (bids won_and_open_db) = [10, 8] \<and>
   (2, ''Beta Deal'', 8) \<in> set (show_deadline_reminders 7 won_and_open_db) \<and>
   (1, ''Acme Deal'', 10) \<notin> set (show_deadline_reminders 7 won_and_open_db)"
proof -
  have b: "bids won_and_open_db =
     [\<lparr>b_id = 1, b_title = ''Acme Deal'', b_description = [],
        b_status = ''Won'', b_stage = ''Proposal Drafting'',
        b_due_date = 10, b_assigned_to = ''Jane'', b_created_by = ''admin'',
        b_created_at = 1, b_client_name = ''Acme Corp'', b_bid_value = 1000,
        b_reason = Some []\<rparr>,
      \<lparr>b_id = 2, b_title = ''Beta Deal'', b_description = [],
        b_status = ''Open'', b_stage = ''Proposal Drafting'',
        b_due_date = 8, b_assigned_to = ''Omar'', b_created_by = ''admin'',
        b_created_at = 5, b_client_name = ''Beta Ltd'', b_bid_value = 500,
        b_reason = None\<rparr>]"
    by (simp add: won_and_open_db_def env_at_def form_acme_def form_beta_def empty_db_def
        create_bid_def manage_bid_process_def update_bid_stage_def log_bid_history_def
        autoincrement_def Let_def set_status_reason_def)
  have i: "(2, ''Beta Deal'', 8) \<in> set (show_deadline_reminders 7 won_and_open_db)"
    using C7_due_soon_table_order [of 7 won_and_open_db "(2, ''Beta Deal'', 8)"] by (simp add: b reminder_row_def)
  have e: "(1, ''Acme Deal'', 10) \<notin> set (show_deadline_reminders 7 won_and_open_db)"
    using C7_due_soon_table_order [of 7 won_and_open_db "(1, ''Acme Deal'', 10)"] by (simp add: b reminder_row_def)
  from i e show ?thesis by (simp add: b)
qed


section \<open>Audit queries\<close>

lemma sorted_order_by_changed_at_desc:
  "sorted_wrt (\<lambda>x y. newest_first (row x) (row y)) (order_by_changed_at_desc row xs)"
proof -
  have "sorted (map (\<lambda>x. - int (h_changed_at (row x))) (order_by_changed_at_desc row xs))"
    unfolding order_by_changed_at_desc_def by (rule sorted_sort_key)
  then show ?thesis
    by (simp add: sorted_map newest_first_def)
qed

lemma mset_order_by_changed_at_desc [simp]:
  "mset (order_by_changed_at_desc row xs) = mset xs"
  by (simp add: order_by_changed_at_desc_def)

lemma length_order_by_changed_at_desc [simp]:
  "length (order_by_changed_at_desc row xs) = length xs"
  by (simp add: order_by_changed_at_desc_def)

lemma take_of_sorted:
  assumes "sorted_wrt P xs"
  shows "sorted_wrt P (take n xs) \<and> mset (take n xs) \<subseteq># mset xs \<and>
         mset xs - mset (take n xs) = mset (drop n xs) \<and>
         (\<forall>x\<in>set (drop n xs). \<forall>y\<in>set (take n xs). P y x)"
proof -
  have split: "xs = take n xs @ drop n xs" by simp
  from assms have "sorted_wrt P (take n xs @ drop n xs)" by simp
  then have a: "sorted_wrt P (take n xs)" and b: "\<forall>y\<in>set (take n xs). \<forall>x\<in>set (drop n xs). P y x"
    unfolding sorted_wrt_append by blast+
  have m: "mset xs = mset (take n xs) + mset (drop n xs)"
    by (metis split mset_append)
  from m have c: "mset (take n xs) \<subseteq># mset xs" by simp
  from m have d: "mset xs - mset (take n xs) = mset (drop n xs)" by simp
  from a b c d show ?thesis by blast
qed

lemma join_one:
  assumes "distinct (map b_id bs)" and "i \<in> b_id ` set bs"
  shows "\<exists>b. filter (\<lambda>b. i = b_id b) bs = [b]"
proof -
  from assms(2) obtain b where b: "b \<in> set bs" "b_id b = i" by auto
  from filter_distinct_key [OF assms(1) b(1)] b(2)
  have "filter (\<lambda>y. b_id y = i) bs = [b]" by simp
  then have "filter (\<lambda>b. i = b_id b) bs = [b]"
    by (simp add: eq_commute)
  then show ?thesis ..
qed

lemma map_fst_join:
  assumes "distinct (map b_id bs)" and "h_bid_id ` set hs \<subseteq> b_id ` set bs"
  shows "map fst (concat (map (\<lambda>h. map (\<lambda>b. (h, b_title b))
            (filter (\<lambda>b. h_bid_id h = b_id b) bs)) hs)) = hs"
  using assms(2)
proof (induction hs)
  case Nil
  then show ?case by simp
next
  case (Cons h hs)
  then have "h_bid_id h \<in> b_id ` set bs" by simp
  from join_one [OF assms(1) this] obtain b where
    "filter (\<lambda>b. h_bid_id h = b_id b) bs = [b]" ..
  moreover from Cons have "map fst (concat (map (\<lambda>h. map (\<lambda>b. (h, b_title b))
            (filter (\<lambda>b. h_bid_id h = b_id b) bs)) hs)) = hs" by simp
  ultimately show ?case by simp
qed

lemma map_fst_history_join_bids:
  "distinct (map b_id (bids db)) \<Longrightarrow> h_bid_id ` set (bid_history db) \<subseteq> b_id ` set (bids db) \<Longrightarrow>
   map fst (history_join_bids db) = bid_history db"
  unfolding history_join_bids_def by (rule map_fst_join)

text \<open>
  Claim C8. The per-bid query returns exactly the history rows of the bid, newest first.
  The global view is newest first, holds the first 50 rows of the joined history (all of
  them when there are fewer), and every joined row it leaves out is no newer than any row
  it shows. When the keys of \<^verbatim>\<open>bids\<close> are distinct and every history row belongs to a
  stored bid, the joined rows are the history rows themselves.
\<close>

theorem C8_audit_queries:
  "mset (bid_history_query bid_id db) =
     filter_mset (\<lambda>h. h_bid_id h = bid_id) (mset (bid_history db)) \<and>
   sorted_wrt newest_first (bid_history_query bid_id db) \<and>
   (0 < bid_id \<longrightarrow> fst (show_audit_trail bid_id db) = Some (bid_history_query bid_id db)) \<and>
   snd (show_audit_trail bid_id db) = recent_activity_query db \<and>
   sorted_wrt newest_first (map fst (recent_activity_query db)) \<and>
   length (recent_activity_query db) = min 50 (length (history_join_bids db)) \<and>
   mset (recent_activity_query db) \<subseteq># mset (history_join_bids db) \<and>
   (\<forall>x\<in>#mset (history_join_bids db) - mset (recent_activity_query db).
      \<forall>y\<in>set (recent_activity_query db). newest_first (fst y) (fst x)) \<and>
   (distinct (map b_id (bids db)) \<and> h_bid_id ` set (bid_history db) \<subseteq> b_id ` set (bids db) \<longrightarrow>
      map fst (history_join_bids db) = bid_history db)"
proof (intro conjI)
  let ?S = "order_by_changed_at_desc fst (history_join_bids db)"
  have S: "sorted_wrt (\<lambda>x y. newest_first (fst x) (fst y)) ?S"
    by (rule sorted_order_by_changed_at_desc)
  note T = take_of_sorted [OF S, of 50]
  have rq: "recent_activity_query db = take 50 ?S"
    by (simp add: recent_activity_query_def)
  show "mset (bid_history_query bid_id db) =
     filter_mset (\<lambda>h. h_bid_id h = bid_id) (mset (bid_history db))"
    by (simp add: bid_history_query_def)
  show "sorted_wrt newest_first (bid_history_query bid_id db)"
    unfolding bid_history_query_def
    using sorted_order_by_changed_at_desc [of "\<lambda>h. h"] by simp
  show "0 < bid_id \<longrightarrow> fst (show_audit_trail bid_id db) = Some (bid_history_query bid_id db)"
    by (simp add: show_audit_trail_def)
  show "snd (show_audit_trail bid_id db) = recent_activity_query db"
    by (simp add: show_audit_trail_def)
  show "sorted_wrt newest_first (map fst (recent_activity_query db))"
    unfolding rq using T by (simp add: sorted_wrt_map)
  show "length (recent_activity_query db) = min 50 (length (history_join_bids db))"
    unfolding rq by (simp add: min.commute)
  have "mset (take 50 ?S) \<subseteq># mset ?S" using T by blast
  then show "mset (recent_activity_query db) \<subseteq># mset (history_join_bids db)"
    unfolding rq by simp
  have "mset ?S - mset (take 50 ?S) = mset (drop 50 ?S)" using T by blast
  then have rest: "mset (history_join_bids db) - mset (recent_activity_query db) = mset (drop 50 ?S)"
    unfolding rq by simp
  show "\<forall>x\<in>#mset (history_join_bids db) - mset (recent_activity_query db).
      \<forall>y\<in>set (recent_activity_query db). newest_first (fst y) (fst x)"
    unfolding rest unfolding rq using T by simp
  show "distinct (map b_id (bids db)) \<and> h_bid_id ` set (bid_history db) \<subseteq> b_id ` set (bids db) \<longrightarrow>
      map fst (history_join_bids db) = bid_history db"
    using map_fst_history_join_bids [of db] by blast
qed


theorem C8_audit_queries_witness:
  "(0::nat) < 1 \<and> distinct (map b_id (bids busy_db)) \<and>
   h_bid_id ` set (bid_history busy_db) \<subseteq> b_id ` set (bids busy_db) \<and>
   length (bid_history busy_db) = 52 \<and>
   map fst (history_join_bids busy_db) = bid_history busy_db \<and>
   length (recent_activity_query busy_db) = 50 \<and>
   size (mset (history_join_bids busy_db) - mset (recent_activity_query busy_db)) = 2 \<and>
   fst (show_audit_trail 1 busy_db) = Some (bid_history_query 1 busy_db) \<and>
   size (mset (bid_history_query 1 busy_db)) = 52"
proof -
  have h0: "(0::nat) < 1" by simp
  have h1: "distinct (map b_id (bids busy_db))"
    by (simp add: busy_db_def one_bid_db_eq)
  have h2: "h_bid_id ` set (bid_history busy_db) \<subseteq> b_id ` set (bids busy_db)"
    by (simp add: busy_db_def one_bid_db_eq history_at_def image_subset_iff)
  have len: "length (bid_history busy_db) = 52"
    by (simp add: busy_db_def)
  have all1: "filter_mset (\<lambda>h. h_bid_id h = 1) (mset (bid_history busy_db)) = mset (bid_history busy_db)"
    by (simp add: busy_db_def history_at_def filter_mset_eq_conv)
  note t = C8_audit_queries [of 1 busy_db]
  from t h1 h2 have j: "map fst (history_join_bids busy_db) = bid_history busy_db"
    by blast
  then have "length (map fst (history_join_bids busy_db)) = 52"
    using len by simp
  then have jl: "length (history_join_bids busy_db) = 52" by simp
  from t jl have rl: "length (recent_activity_query busy_db) = 50" by simp
  from t have sub: "mset (recent_activity_query busy_db) \<subseteq># mset (history_join_bids busy_db)"
    by blast
  have sz: "size (mset (history_join_bids busy_db) - mset (recent_activity_query busy_db)) = 2"
    using size_Diff_submset [OF sub] jl rl by simp
  from t h0 have f: "fst (show_audit_trail 1 busy_db) = Some (bid_history_query 1 busy_db)"
    by blast
  from t have "mset (bid_history_query 1 busy_db) =
     filter_mset (\<lambda>h. h_bid_id h = 1) (mset (bid_history busy_db))"
    by blast
  then have q: "size (mset (bid_history_query 1 busy_db)) = 52"
    using all1 len by simp
  from h0 h1 h2 len j rl sz f q show ?thesis by blast
qed

end
